theory Spec2Isabelle
  imports Complex_Main
begin

section \<open>Values handed over by the planner\<close>

text \<open>
  The planner's answer reaches \<open>validate_or_fix\<close> as whatever \<open>json.loads\<close> built:
  \<open>None\<close>, a bool, a number, a string, a list or a dict with string keys. A number is
  modelled by its value: a Python \<open>int\<close> or finite \<open>float\<close> is \<open>Fin r\<close> with \<open>r\<close> the
  exact rational it denotes (Python compares \<open>int\<close> and \<open>float\<close> by value, so \<open>30\<close> and
  \<open>30.0\<close> are the same number here), and the three non-finite floats are kept apart,
  since \<open>float("nan")\<close> and \<open>float("inf")\<close> succeed in Python. A dict is an association
  list in insertion order; \<open>json.loads\<close> never builds one with a repeated key.
\<close>

datatype number = Fin rat | PInf | NInf | NaN

datatype json =
    JNull
  | JBool bool
  | JNum number
  | JStr string
  | JArr "json list"
  | JObj "(string \<times> json) list"

datatype py_error =
    AttributeError
  | TypeError
  | ValueError
  | OverflowError
  | ValidationError
  | ConnectionError
  | Timeout
  | HTTPError
  | JSONDecodeError

text \<open>Sequencing: the first step that raises ends the computation.\<close>

definition ebind :: "py_error + 'a \<Rightarrow> ('a \<Rightarrow> py_error + 'b) \<Rightarrow> py_error + 'b" where
  "ebind m f = (case m of Inl err \<Rightarrow> Inl err | Inr x \<Rightarrow> f x)"

text \<open>
  What \<open>float(s)\<close> and \<open>int(s)\<close> make of a string is Python's own literal grammar
  (signs, exponents, underscores, surrounding blanks, \<open>"nan"\<close>, \<open>"inf"\<close>); the two parsers
  are parameters of the model, \<open>None\<close> standing for \<open>ValueError\<close>.
\<close>

record builtins =
  float_of_str :: "string \<Rightarrow> number option"
  int_of_str :: "string \<Rightarrow> int option"

subsection \<open>Python's comparison of numbers, \<open>max\<close> and \<open>min\<close>\<close>

fun num_less :: "number \<Rightarrow> number \<Rightarrow> bool" where
  "num_less NaN _ = False"
| "num_less _ NaN = False"
| "num_less (Fin a) (Fin b) = (a < b)"
| "num_less (Fin a) PInf = True"
| "num_less (Fin a) NInf = False"
| "num_less PInf _ = False"
| "num_less NInf (Fin b) = True"
| "num_less NInf PInf = True"
| "num_less NInf NInf = False"

text \<open>\<open>max(a, b)\<close> keeps \<open>a\<close> unless \<open>b > a\<close>; \<open>min(a, b)\<close> keeps \<open>a\<close> unless \<open>b < a\<close>.\<close>

definition py_max :: "number \<Rightarrow> number \<Rightarrow> number" where
  "py_max a b = (if num_less a b then b else a)"

definition py_min :: "number \<Rightarrow> number \<Rightarrow> number" where
  "py_min a b = (if num_less b a then b else a)"

subsection \<open>\<open>float(x)\<close> and \<open>int(x)\<close>\<close>

text \<open>
  \<open>float\<close> of an \<open>int\<close> raises \<open>OverflowError\<close> when the nearest double would be
  \<open>2 ^ 1024\<close> or more, that is from \<open>2 ^ 1024 - 2 ^ 970\<close> on; no finite float is that
  large, so the test on the value singles out exactly those ints. Below that bound
  \<open>float\<close> rounds an int beyond \<open>2 ^ 53\<close> to a neighbouring double; the model keeps the
  value, which the clamps that follow every call of \<open>float\<close> in this program cannot
  tell apart (rounding is monotone and every int from \<open>-2 ^ 53\<close> to \<open>2 ^ 53\<close> is exact).
\<close>

definition float_overflow_bound :: rat where
  "float_overflow_bound = 2 ^ 1024 - 2 ^ 970"

fun py_float :: "builtins \<Rightarrow> json \<Rightarrow> py_error + number" where
  "py_float B (JNum (Fin r)) =
     (if float_overflow_bound \<le> \<bar>r\<bar> then Inl OverflowError else Inr (Fin r))"
| "py_float B (JNum n) = Inr n"
| "py_float B (JBool b) = Inr (Fin (if b then 1 else 0))"
| "py_float B (JStr s) =
     (case float_of_str B s of None \<Rightarrow> Inl ValueError | Some n \<Rightarrow> Inr n)"
| "py_float B _ = Inl TypeError"

text \<open>\<open>int\<close> of a float truncates towards zero.\<close>

definition trunc :: "rat \<Rightarrow> int" where
  "trunc r = (if 0 \<le> r then \<lfloor>r\<rfloor> else \<lceil>r\<rceil>)"

fun py_int :: "builtins \<Rightarrow> json \<Rightarrow> py_error + int" where
  "py_int B (JNum (Fin r)) = Inr (trunc r)"
| "py_int B (JNum NaN) = Inl ValueError"
| "py_int B (JNum _) = Inl OverflowError"
| "py_int B (JBool b) = Inr (if b then 1 else 0)"
| "py_int B (JStr s) =
     (case int_of_str B s of None \<Rightarrow> Inl ValueError | Some i \<Rightarrow> Inr i)"
| "py_int B _ = Inl TypeError"

subsection \<open>\<open>dict.get\<close>, iteration, set membership\<close>

definition dict_get :: "(string \<times> json) list \<Rightarrow> string \<Rightarrow> json \<Rightarrow> json" where
  "dict_get d k dflt = (case map_of d k of None \<Rightarrow> dflt | Some v \<Rightarrow> v)"

text \<open>Only a dict has a \<open>get\<close> method.\<close>

fun py_get :: "json \<Rightarrow> string \<Rightarrow> json \<Rightarrow> py_error + json" where
  "py_get (JObj d) k dflt = Inr (dict_get d k dflt)"
| "py_get _ k dflt = Inl AttributeError"

text \<open>
  \<open>for e in x\<close>: a list yields its elements, a dict its keys, a string its characters
  (one-character strings); anything else is not iterable.
\<close>

fun py_iter :: "json \<Rightarrow> py_error + json list" where
  "py_iter (JArr xs) = Inr xs"
| "py_iter (JObj d) = Inr (map (\<lambda>kv. JStr (fst kv)) d)"
| "py_iter (JStr s) = Inr (map (\<lambda>c. JStr [c]) s)"
| "py_iter _ = Inl TypeError"

text \<open>
  \<open>x in S\<close> for a set \<open>S\<close> of strings hashes \<open>x\<close> first: a list or a dict is
  unhashable. Of the hashable values only an equal string is a member.
\<close>

fun py_in :: "json \<Rightarrow> string list \<Rightarrow> py_error + bool" where
  "py_in (JStr s) S = Inr (s \<in> set S)"
| "py_in (JArr _) S = Inl TypeError"
| "py_in (JObj _) S = Inl TypeError"
| "py_in _ S = Inr False"

section \<open>The action schema\<close>

definition parts :: "string list" where
  "parts = [''tail'', ''head'', ''left_ear'', ''right_ear'', ''left_eye'', ''right_eye'',
            ''chest'', ''back'', ''left_leg'', ''right_leg'']"

definition modes :: "string list" where
  "modes = [''on'', ''off'', ''blink'', ''pulse'', ''wag'', ''chase'']"

text \<open>
  \<open>BRUNO_SCHEMA\<close> as \<open>jsonschema.validate\<close> reads it. A keyword constrains only the
  instances of the type it speaks about; \<open>"number"\<close> and \<open>"integer"\<close> exclude bools; an
  \<open>"integer"\<close> is an int or a float with no fractional part; \<open>minimum\<close> fails when
  \<open>instance < minimum\<close>, so a NaN passes both bounds.
\<close>

definition is_integer :: "number \<Rightarrow> bool" where
  "is_integer n = (case n of Fin r \<Rightarrow> of_int \<lfloor>r\<rfloor> = r | _ \<Rightarrow> False)"

definition in_bounds :: "number \<Rightarrow> number \<Rightarrow> number \<Rightarrow> bool" where
  "in_bounds lo hi n = (\<not> num_less n lo \<and> \<not> num_less hi n)"

definition enum_ok :: "string list \<Rightarrow> json option \<Rightarrow> bool" where
  "enum_ok S v = (case v of Some (JStr s) \<Rightarrow> s \<in> set S | _ \<Rightarrow> False)"

definition number_ok :: "number \<Rightarrow> number \<Rightarrow> json option \<Rightarrow> bool" where
  "number_ok lo hi v =
     (case v of None \<Rightarrow> True | Some (JNum n) \<Rightarrow> in_bounds lo hi n | Some _ \<Rightarrow> False)"

definition integer_ok :: "number \<Rightarrow> number \<Rightarrow> json option \<Rightarrow> bool" where
  "integer_ok lo hi v =
     (case v of None \<Rightarrow> True
      | Some (JNum n) \<Rightarrow> is_integer n \<and> in_bounds lo hi n
      | Some _ \<Rightarrow> False)"

definition effect_keys :: "string list" where
  "effect_keys = [''part'', ''mode'', ''hz'', ''duty'', ''duration_ms'']"

fun effect_ok :: "json \<Rightarrow> bool" where
  "effect_ok (JObj d) =
     (enum_ok parts (map_of d ''part'') \<and>
      enum_ok modes (map_of d ''mode'') \<and>
      number_ok (Fin (1 / 10)) (Fin 30) (map_of d ''hz'') \<and>
      number_ok (Fin 0) (Fin 1) (map_of d ''duty'') \<and>
      integer_ok (Fin 50) (Fin 60000) (map_of d ''duration_ms'') \<and>
      list_all (\<lambda>kv. fst kv \<in> set effect_keys) d)"
| "effect_ok _ = False"

definition is_str :: "json option \<Rightarrow> bool" where
  "is_str v = (case v of Some (JStr s) \<Rightarrow> True | _ \<Rightarrow> False)"

definition effects_ok :: "json option \<Rightarrow> bool" where
  "effects_ok v =
     (case v of Some (JArr es) \<Rightarrow> 1 \<le> length es \<and> length es \<le> 5 \<and> list_all effect_ok es
      | _ \<Rightarrow> False)"

fun schema_ok :: "json \<Rightarrow> bool" where
  "schema_ok (JObj d) =
     (is_str (map_of d ''intent'') \<and>
      effects_ok (map_of d ''effects'') \<and>
      list_all (\<lambda>kv. fst kv \<in> set [''intent'', ''effects'']) d)"
| "schema_ok _ = False"

definition validate :: "json \<Rightarrow> py_error + unit" where
  "validate instance = (if schema_ok instance then Inr () else Inl ValidationError)"

section \<open>The plan validator\<close>

definition FALLBACK_PLAN :: json where
  "FALLBACK_PLAN =
     JObj [(''intent'', JStr ''EMOTE_OR_ACTION''),
           (''effects'', JArr [JObj [(''part'', JStr ''tail''), (''mode'', JStr ''wag''),
                                     (''hz'', JNum (Fin 6)),
                                     (''duration_ms'', JNum (Fin 1500))]])]"

text \<open>
  One turn of the repair loop: the five assignments of the loop body, in the source's
  order, and the dict that is appended to \<open>fixed["effects"]\<close>.
\<close>

definition pick :: "json \<Rightarrow> string list \<Rightarrow> string \<Rightarrow> py_error + json" where
  "pick v S dflt = ebind (py_in v S) (\<lambda>b. Inr (if b then v else JStr dflt))"

definition clamp_hz :: "number \<Rightarrow> number" where
  "clamp_hz hz = py_min (py_max hz (Fin (1 / 10))) (Fin 30)"

definition clamp_duty :: "number \<Rightarrow> number" where
  "clamp_duty duty = py_min (py_max duty (Fin 0)) (Fin 1)"

definition clamp_dur :: "int \<Rightarrow> int" where
  "clamp_dur dur = min (max dur 50) 60000"

definition fix_effect :: "builtins \<Rightarrow> json \<Rightarrow> py_error + json" where
  "fix_effect B e =
     ebind (py_get e ''part'' (JStr ''tail'')) (\<lambda>part0.
     ebind (pick part0 parts ''tail'') (\<lambda>part.
     ebind (py_get e ''mode'' (JStr ''wag'')) (\<lambda>mode0.
     ebind (pick mode0 modes ''wag'') (\<lambda>mode.
     ebind (py_get e ''hz'' (JNum (Fin 6))) (\<lambda>hz0.
     ebind (py_float B hz0) (\<lambda>hz1.
     ebind (py_get e ''duty'' (JNum (Fin (1 / 2)))) (\<lambda>duty0.
     ebind (py_float B duty0) (\<lambda>duty1.
     ebind (py_get e ''duration_ms'' (JNum (Fin 1500))) (\<lambda>dur0.
     ebind (py_int B dur0) (\<lambda>dur1.
     Inr (JObj [(''part'', part), (''mode'', mode), (''hz'', JNum (clamp_hz hz1)),
                (''duty'', JNum (clamp_duty duty1)),
                (''duration_ms'', JNum (Fin (of_int (clamp_dur dur1))))])))))))))))"

text \<open>The \<open>for\<close> loop: \<open>acc\<close> is \<open>fixed["effects"]\<close> so far.\<close>

fun fix_effects :: "builtins \<Rightarrow> json list \<Rightarrow> json list \<Rightarrow> py_error + json list" where
  "fix_effects B [] acc = Inr acc"
| "fix_effects B (e # es) acc =
     ebind (fix_effect B e) (\<lambda>e'. fix_effects B es (acc @ [e']))"

text \<open>
  The \<open>except\<close> branch of \<open>validate_or_fix\<close> in \<open>bruno_stage3_bridge.py\<close> and
  \<open>bruno_wake_loop_vosk.py\<close>. An exception raised inside it leaves the function.
\<close>

definition repair :: "builtins \<Rightarrow> json \<Rightarrow> py_error + json" where
  "repair B plan =
     ebind (py_get plan ''intent'' (JStr ''EMOTE_OR_ACTION'')) (\<lambda>intent.
     ebind (py_get plan ''effects'' (JArr [])) (\<lambda>effs.
     ebind (py_iter effs) (\<lambda>es.
     ebind (fix_effects B es []) (\<lambda>fixed_effects.
     Inr (if fixed_effects \<noteq> []
          then JObj [(''intent'', intent), (''effects'', JArr fixed_effects)]
          else FALLBACK_PLAN)))))"

definition validate_or_fix :: "builtins \<Rightarrow> json \<Rightarrow> py_error + json" where
  "validate_or_fix B plan =
     (case validate plan of Inr _ \<Rightarrow> Inr plan | Inl _ \<Rightarrow> repair B plan)"

subsection \<open>The other two variants\<close>

text \<open>
  Python's truth value of a JSON value, as \<open>or\<close> and \<open>if\<close> test it: \<open>None\<close>, \<open>False\<close>,
  zero, and the empty string, list and dict are false; a NaN is true.
\<close>

fun truthy :: "json \<Rightarrow> bool" where
  "truthy JNull = False"
| "truthy (JBool b) = b"
| "truthy (JNum n) = (n \<noteq> Fin 0)"
| "truthy (JStr s) = (s \<noteq> [])"
| "truthy (JArr xs) = (xs \<noteq> [])"
| "truthy (JObj d) = (d \<noteq> [])"

text \<open>
  \<open>bruno_stage1_vosk_big_loop.py\<close> has the same loop and ends with
  \<open>return fixed or FALLBACK_PLAN\<close>: the test is on the dict \<open>fixed\<close>, not on its effects.
\<close>

definition repair_big_loop :: "builtins \<Rightarrow> json \<Rightarrow> py_error + json" where
  "repair_big_loop B plan =
     ebind (py_get plan ''intent'' (JStr ''EMOTE_OR_ACTION'')) (\<lambda>intent.
     ebind (py_get plan ''effects'' (JArr [])) (\<lambda>effs.
     ebind (py_iter effs) (\<lambda>es.
     ebind (fix_effects B es []) (\<lambda>fixed_effects.
     let fixed = JObj [(''intent'', intent), (''effects'', JArr fixed_effects)]
     in Inr (if truthy fixed then fixed else FALLBACK_PLAN)))))"

definition validate_or_fix_big_loop :: "builtins \<Rightarrow> json \<Rightarrow> py_error + json" where
  "validate_or_fix_big_loop B plan =
     (case validate plan of Inr _ \<Rightarrow> Inr plan | Inl _ \<Rightarrow> repair_big_loop B plan)"

text \<open>
  \<open>bruno_stage1_whisper.py\<close> works on a deep copy of the plan, repairs in the same
  way, and validates the repaired plan once more, returning \<open>FALLBACK_PLAN\<close> when that
  fails. Only \<open>ValidationError\<close> is caught; an exception of the repair still leaves.
\<close>

definition validate_or_fix_whisper :: "builtins \<Rightarrow> json \<Rightarrow> py_error + json" where
  "validate_or_fix_whisper B plan =
     (case validate plan of Inr _ \<Rightarrow> Inr plan
      | Inl _ \<Rightarrow>
          ebind (repair B plan) (\<lambda>fixed.
          case validate fixed of Inr _ \<Rightarrow> Inr fixed | Inl _ \<Rightarrow> Inr FALLBACK_PLAN))"

subsection \<open>Notions used to state the properties\<close>

text \<open>The effects a plan carries: the elements of its \<open>effects\<close> list, if it has one.\<close>

definition effects_of :: "json \<Rightarrow> json list" where
  "effects_of p =
     (case p of JObj d \<Rightarrow> (case map_of d ''effects'' of Some (JArr es) \<Rightarrow> es | _ \<Rightarrow> [])
      | _ \<Rightarrow> [])"

text \<open>
  A pair of parsers that accept no string at all. The plans evaluated below hold no
  string in a numeric field, so the parsers are never consulted there.
\<close>

definition no_parse :: builtins where
  "no_parse = \<lparr>float_of_str = Map.empty, int_of_str = Map.empty\<rparr>"

section \<open>Properties of the plan validator\<close>

subsection \<open>Sequencing and the loop body\<close>

lemma ebind_Inl [simp]: "ebind (Inl e) f = Inl e"
  by (simp add: ebind_def)

lemma ebind_Inr [simp]: "ebind (Inr x) f = f x"
  by (simp add: ebind_def)

lemma ebind_eq_Inr: "(ebind m f = Inr y) = (\<exists>x. m = Inr x \<and> f x = Inr y)"
  by (cases m) simp_all

lemma ebind_InrE:
  assumes "ebind m f = Inr y"
  obtains x where "m = Inr x" and "f x = Inr y"
  using assms by (auto simp: ebind_eq_Inr)

lemma pick_Inr:
  assumes "pick v S dflt = Inr r"
  shows "\<exists>s. r = JStr s \<and> (s \<in> set S \<or> s = dflt)"
  using assms by (cases v) (auto simp: pick_def split: if_splits)

lemma tail_in_parts: "''tail'' \<in> set parts"
  by (simp add: parts_def)

lemma wag_in_modes: "''wag'' \<in> set modes"
  by (simp add: modes_def)

lemma pick_member: "s \<in> set S \<Longrightarrow> pick (JStr s) S dflt = Inr (JStr s)"
  by (simp add: pick_def)

lemma fix_effect_JObj:
  "fix_effect B (JObj d) =
     ebind (pick (dict_get d ''part'' (JStr ''tail'')) parts ''tail'') (\<lambda>part.
     ebind (pick (dict_get d ''mode'' (JStr ''wag'')) modes ''wag'') (\<lambda>mode.
     ebind (py_float B (dict_get d ''hz'' (JNum (Fin 6)))) (\<lambda>hz1.
     ebind (py_float B (dict_get d ''duty'' (JNum (Fin (1 / 2))))) (\<lambda>duty1.
     ebind (py_int B (dict_get d ''duration_ms'' (JNum (Fin 1500)))) (\<lambda>dur1.
     Inr (JObj [(''part'', part), (''mode'', mode), (''hz'', JNum (clamp_hz hz1)),
                (''duty'', JNum (clamp_duty duty1)),
                (''duration_ms'', JNum (Fin (of_int (clamp_dur dur1))))]))))))"
  by (simp add: fix_effect_def)

lemma fix_effect_dict: "fix_effect B e = Inr e' \<Longrightarrow> \<exists>d. e = JObj d"
  by (cases e) (simp_all add: fix_effect_def)

lemma fix_effect_Inr:
  assumes "fix_effect B e = Inr e'"
  shows "\<exists>d p m h1 d1 i.
           e = JObj d \<and>
           pick (dict_get d ''part'' (JStr ''tail'')) parts ''tail'' = Inr (JStr p) \<and>
           (p \<in> set parts) \<and>
           pick (dict_get d ''mode'' (JStr ''wag'')) modes ''wag'' = Inr (JStr m) \<and>
           (m \<in> set modes) \<and>
           py_float B (dict_get d ''hz'' (JNum (Fin 6))) = Inr h1 \<and>
           py_float B (dict_get d ''duty'' (JNum (Fin (1 / 2)))) = Inr d1 \<and>
           py_int B (dict_get d ''duration_ms'' (JNum (Fin 1500))) = Inr i \<and>
           e' = JObj [(''part'', JStr p), (''mode'', JStr m), (''hz'', JNum (clamp_hz h1)),
                      (''duty'', JNum (clamp_duty d1)),
                      (''duration_ms'', JNum (Fin (of_int (clamp_dur i))))]"
proof -
  obtain d where e: "e = JObj d"
    using fix_effect_dict [OF assms] by blast
  have a: "fix_effect B (JObj d) = Inr e'" using assms e by simp
  from a [unfolded fix_effect_JObj] obtain part where
    p: "pick (dict_get d ''part'' (JStr ''tail'')) parts ''tail'' = Inr part" and
    a1: "ebind (pick (dict_get d ''mode'' (JStr ''wag'')) modes ''wag'') (\<lambda>mode.
     ebind (py_float B (dict_get d ''hz'' (JNum (Fin 6)))) (\<lambda>hz1.
     ebind (py_float B (dict_get d ''duty'' (JNum (Fin (1 / 2))))) (\<lambda>duty1.
     ebind (py_int B (dict_get d ''duration_ms'' (JNum (Fin 1500)))) (\<lambda>dur1.
     Inr (JObj [(''part'', part), (''mode'', mode), (''hz'', JNum (clamp_hz hz1)),
                (''duty'', JNum (clamp_duty duty1)),
                (''duration_ms'', JNum (Fin (of_int (clamp_dur dur1))))]))))) = Inr e'"
    by (rule ebind_InrE)
  from a1 obtain mode where
    m: "pick (dict_get d ''mode'' (JStr ''wag'')) modes ''wag'' = Inr mode" and
    a2: "ebind (py_float B (dict_get d ''hz'' (JNum (Fin 6)))) (\<lambda>hz1.
     ebind (py_float B (dict_get d ''duty'' (JNum (Fin (1 / 2))))) (\<lambda>duty1.
     ebind (py_int B (dict_get d ''duration_ms'' (JNum (Fin 1500)))) (\<lambda>dur1.
     Inr (JObj [(''part'', part), (''mode'', mode), (''hz'', JNum (clamp_hz hz1)),
                (''duty'', JNum (clamp_duty duty1)),
                (''duration_ms'', JNum (Fin (of_int (clamp_dur dur1))))])))) = Inr e'"
    by (rule ebind_InrE)
  from a2 obtain h1 where
    h: "py_float B (dict_get d ''hz'' (JNum (Fin 6))) = Inr h1" and
    a3: "ebind (py_float B (dict_get d ''duty'' (JNum (Fin (1 / 2))))) (\<lambda>duty1.
     ebind (py_int B (dict_get d ''duration_ms'' (JNum (Fin 1500)))) (\<lambda>dur1.
     Inr (JObj [(''part'', part), (''mode'', mode), (''hz'', JNum (clamp_hz h1)),
                (''duty'', JNum (clamp_duty duty1)),
                (''duration_ms'', JNum (Fin (of_int (clamp_dur dur1))))]))) = Inr e'"
    by (rule ebind_InrE)
  from a3 obtain d1 where
    du: "py_float B (dict_get d ''duty'' (JNum (Fin (1 / 2)))) = Inr d1" and
    a4: "ebind (py_int B (dict_get d ''duration_ms'' (JNum (Fin 1500)))) (\<lambda>dur1.
     Inr (JObj [(''part'', part), (''mode'', mode), (''hz'', JNum (clamp_hz h1)),
                (''duty'', JNum (clamp_duty d1)),
                (''duration_ms'', JNum (Fin (of_int (clamp_dur dur1))))])) = Inr e'"
    by (rule ebind_InrE)
  from a4 obtain i where
    i: "py_int B (dict_get d ''duration_ms'' (JNum (Fin 1500))) = Inr i" and
    a5: "Inr (JObj [(''part'', part), (''mode'', mode), (''hz'', JNum (clamp_hz h1)),
                (''duty'', JNum (clamp_duty d1)),
                (''duration_ms'', JNum (Fin (of_int (clamp_dur i))))]) = (Inr e' :: py_error + json)"
    by (rule ebind_InrE)
  from pick_Inr [OF p] obtain ps where ps: "part = JStr ps" "ps \<in> set parts"
    using tail_in_parts by blast
  from pick_Inr [OF m] obtain ms where ms: "mode = JStr ms" "ms \<in> set modes"
    using wag_in_modes by blast
  have e': "e' = JObj [(''part'', JStr ps), (''mode'', JStr ms), (''hz'', JNum (clamp_hz h1)),
                      (''duty'', JNum (clamp_duty d1)),
                      (''duration_ms'', JNum (Fin (of_int (clamp_dur i))))]"
    using a5 ps ms by simp
  show ?thesis
    apply (rule exI [of _ d], rule exI [of _ ps], rule exI [of _ ms])
    apply (rule exI [of _ h1], rule exI [of _ d1], rule exI [of _ i])
    using e p m h du i e' ps ms by simp
qed

lemma float_overflow_bound_large: "(30::rat) < float_overflow_bound"
proof -
  have "(2::rat) ^ 1024 = 2 ^ 970 * 2 ^ 54" by (simp add: power_add [symmetric])
  then have "float_overflow_bound = 2 ^ 970 * (2 ^ 54 - 1)"
    by (simp add: float_overflow_bound_def algebra_simps)
  moreover have "(1::rat) \<le> 2 ^ 970" by simp
  moreover have "(30::rat) < 2 ^ 54 - 1" by simp
  ultimately show ?thesis
    by (metis less_le_trans mult_le_cancel_right1 less_imp_le zero_less_numeral
        le_less_trans less_le not_le order_trans zero_le_numeral mult_left_mono mult.commute mult_1)
qed

lemma clamp_hz_in_bounds: "in_bounds (Fin (1 / 10)) (Fin 30) (clamp_hz n)"
  by (cases n) (auto simp: clamp_hz_def py_max_def py_min_def in_bounds_def)

lemma clamp_duty_in_bounds: "in_bounds (Fin 0) (Fin 1) (clamp_duty n)"
  by (cases n) (auto simp: clamp_duty_def py_max_def py_min_def in_bounds_def)

lemma clamp_hz_Fin: "clamp_hz (Fin v) = Fin (min (max v (1 / 10)) 30)"
  by (auto simp: clamp_hz_def py_max_def py_min_def)

lemma clamp_duty_Fin: "clamp_duty (Fin v) = Fin (min (max v 0) 1)"
  by (auto simp: clamp_duty_def py_max_def py_min_def)

lemma clamp_hz_idem: "clamp_hz (clamp_hz n) = clamp_hz n"
  by (cases n) (auto simp: clamp_hz_def py_max_def py_min_def)

lemma clamp_duty_idem: "clamp_duty (clamp_duty n) = clamp_duty n"
  by (cases n) (auto simp: clamp_duty_def py_max_def py_min_def)

lemma clamp_dur_range: "50 \<le> clamp_dur i \<and> clamp_dur i \<le> 60000"
  by (simp add: clamp_dur_def)

lemma clamp_dur_idem: "clamp_dur (clamp_dur i) = clamp_dur i"
  by (simp add: clamp_dur_def)

lemma clamp_hz_values:
  "clamp_hz PInf = Fin 30" "clamp_hz NInf = Fin (1 / 10)" "clamp_hz NaN = NaN"
  by (simp_all add: clamp_hz_def py_max_def py_min_def)

lemma clamp_duty_values:
  "clamp_duty PInf = Fin 1" "clamp_duty NInf = Fin 0" "clamp_duty NaN = NaN"
  by (simp_all add: clamp_duty_def py_max_def py_min_def)

lemma py_float_small: "\<bar>r\<bar> \<le> 30 \<Longrightarrow> py_float B (JNum (Fin r)) = Inr (Fin r)"
  using float_overflow_bound_large by simp

lemma py_float_clamp_hz: "py_float B (JNum (clamp_hz n)) = Inr (clamp_hz n)"
proof (cases n)
  case (Fin x)
  have "\<bar>min (max x (1 / 10)) 30\<bar> \<le> 30" by (simp add: abs_le_iff min_def max_def)
  then show ?thesis unfolding Fin clamp_hz_Fin by (rule py_float_small)
next
  case PInf
  show ?thesis unfolding PInf clamp_hz_values by (rule py_float_small) simp
next
  case NInf
  show ?thesis unfolding NInf clamp_hz_values by (rule py_float_small) simp
next
  case NaN
  show ?thesis unfolding NaN clamp_hz_values by simp
qed

lemma py_float_clamp_duty: "py_float B (JNum (clamp_duty n)) = Inr (clamp_duty n)"
proof (cases n)
  case (Fin x)
  have "\<bar>min (max x 0) 1\<bar> \<le> 30" by (simp add: abs_le_iff min_def max_def)
  then show ?thesis unfolding Fin clamp_duty_Fin by (rule py_float_small)
next
  case PInf
  show ?thesis unfolding PInf clamp_duty_values by (rule py_float_small) simp
next
  case NInf
  show ?thesis unfolding NInf clamp_duty_values by (rule py_float_small) simp
next
  case NaN
  show ?thesis unfolding NaN clamp_duty_values by simp
qed

lemma trunc_of_int: "trunc (of_int i) = i"
  by (simp add: trunc_def)

lemma py_int_of_int: "py_int B (JNum (Fin (of_int i))) = Inr i"
  by (simp add: trunc_of_int)

lemma is_integer_of_int: "is_integer (Fin (of_int i))"
  by (simp add: is_integer_def)

lemma in_bounds_dur: "in_bounds (Fin 50) (Fin 60000) (Fin (of_int (clamp_dur i)))"
  using clamp_dur_range [of i] by (simp add: in_bounds_def)

lemma effect_ok_fixed:
  assumes "p \<in> set parts" and "m \<in> set modes"
  shows "effect_ok (JObj [(''part'', JStr p), (''mode'', JStr m), (''hz'', JNum (clamp_hz h1)),
                      (''duty'', JNum (clamp_duty d1)),
                      (''duration_ms'', JNum (Fin (of_int (clamp_dur i))))])"
  using assms
  by (simp add: enum_ok_def number_ok_def integer_ok_def effect_keys_def
      clamp_hz_in_bounds clamp_duty_in_bounds is_integer_of_int in_bounds_dur)

lemma fix_effect_effect_ok:
  assumes "fix_effect B e = Inr e'"
  shows "effect_ok e'"
  using fix_effect_Inr [OF assms] effect_ok_fixed by blast

lemma fix_effect_fixed:
  assumes "p \<in> set parts" and "m \<in> set modes"
  shows "fix_effect B (JObj [(''part'', JStr p), (''mode'', JStr m), (''hz'', JNum (clamp_hz h1)),
                      (''duty'', JNum (clamp_duty d1)),
                      (''duration_ms'', JNum (Fin (of_int (clamp_dur i))))])
         = Inr (JObj [(''part'', JStr p), (''mode'', JStr m), (''hz'', JNum (clamp_hz h1)),
                      (''duty'', JNum (clamp_duty d1)),
                      (''duration_ms'', JNum (Fin (of_int (clamp_dur i))))])"
  using assms
  by (simp add: fix_effect_JObj dict_get_def pick_member py_float_clamp_hz py_float_clamp_duty
      py_int_of_int clamp_hz_idem clamp_duty_idem clamp_dur_idem del: py_float.simps py_int.simps)

lemma fix_effect_idem:
  assumes "fix_effect B e = Inr e'"
  shows "fix_effect B e' = Inr e'"
  using fix_effect_Inr [OF assms] fix_effect_fixed by blast

lemma fix_effects_Inr:
  "fix_effects B es acc = Inr r \<Longrightarrow>
     \<exists>es'. r = acc @ es' \<and> list_all2 (\<lambda>e e'. fix_effect B e = Inr e') es es'"
proof (induction es arbitrary: acc r)
  case Nil
  then show ?case by simp
next
  case (Cons e es)
  from Cons.prems obtain e' where e': "fix_effect B e = Inr e'"
    and rest: "fix_effects B es (acc @ [e']) = Inr r"
    by (auto simp: ebind_eq_Inr)
  from Cons.IH [OF rest] obtain es' where "r = (acc @ [e']) @ es'"
    and "list_all2 (\<lambda>e e'. fix_effect B e = Inr e') es es'" by blast
  then have "r = acc @ (e' # es') \<and> list_all2 (\<lambda>e e'. fix_effect B e = Inr e') (e # es) (e' # es')"
    using e' by simp
  then show ?case by blast
qed

lemma fix_effects_fixed:
  "list_all (\<lambda>e. fix_effect B e = Inr e) es \<Longrightarrow> fix_effects B es acc = Inr (acc @ es)"
  by (induction es arbitrary: acc) simp_all

lemma schema_ok_FALLBACK_PLAN: "schema_ok FALLBACK_PLAN"
  by (simp add: FALLBACK_PLAN_def is_str_def effects_ok_def enum_ok_def number_ok_def
      integer_ok_def in_bounds_def is_integer_def effect_keys_def parts_def modes_def)

lemma validate_or_fix_valid: "schema_ok p \<Longrightarrow> validate_or_fix B p = Inr p"
  by (simp add: validate_or_fix_def validate_def)

lemma validate_or_fix_invalid: "\<not> schema_ok p \<Longrightarrow> validate_or_fix B p = repair B p"
  by (simp add: validate_or_fix_def validate_def)

lemma repair_Inr:
  assumes "repair B p = Inr q"
  shows "\<exists>d es fe. p = JObj d \<and> py_iter (dict_get d ''effects'' (JArr [])) = Inr es \<and>
           fix_effects B es [] = Inr fe \<and>
           q = (if fe \<noteq> [] then JObj [(''intent'', dict_get d ''intent'' (JStr ''EMOTE_OR_ACTION'')),
                                         (''effects'', JArr fe)]
                else FALLBACK_PLAN)"
proof -
  obtain d where p: "p = JObj d"
    using assms by (cases p) (simp_all add: repair_def)
  from assms show ?thesis
    unfolding p repair_def by (auto simp: ebind_eq_Inr)
qed

lemma repair_fixed:
  assumes "list_all (\<lambda>e. fix_effect B e = Inr e) fe" and "fe \<noteq> []"
  shows "repair B (JObj [(''intent'', i), (''effects'', JArr fe)])
         = Inr (JObj [(''intent'', i), (''effects'', JArr fe)])"
  using assms by (simp add: repair_def dict_get_def fix_effects_fixed)


subsection \<open>Claims\<close>

text \<open>
  C8. On the plan \<open>{"intent":"X","effects":[{"part":"nose","mode":"spin","hz":999}]}\<close>
  the validator returns
  \<open>{"intent":"X","effects":[{"part":"tail","mode":"wag","hz":30,"duty":0.5,"duration_ms":1500}]}\<close>:
  the intent is kept, the unknown part and mode are replaced by tail and wag, hz is
  clamped to 30, duty and duration_ms take their defaults.
\<close>

theorem validate_or_fix_scenario_nose_spin:
  "validate_or_fix B
     (JObj [(''intent'', JStr ''X''),
            (''effects'', JArr [JObj [(''part'', JStr ''nose''), (''mode'', JStr ''spin''),
                                      (''hz'', JNum (Fin 999))]])])
   = Inr (JObj [(''intent'', JStr ''X''),
                (''effects'', JArr [JObj [(''part'', JStr ''tail''), (''mode'', JStr ''wag''),
                                          (''hz'', JNum (Fin 30)), (''duty'', JNum (Fin (1 / 2))),
                                          (''duration_ms'', JNum (Fin 1500))]])])"
  by (simp add: validate_or_fix_def validate_def is_str_def effects_ok_def enum_ok_def
      parts_def modes_def repair_def ebind_def dict_get_def fix_effect_def pick_def
      clamp_hz_def clamp_duty_def clamp_dur_def py_max_def py_min_def
      float_overflow_bound_def trunc_def)

end
